theory Spec2Isabelle
  imports Main
begin

section \<open>The CES survey contribution (ces.contribution.ts)\<close>

text \<open>
  A shallow embedding of \<^verbatim>\<open>src/vs/workbench/contrib/surveys/browser/ces.contribution.ts\<close>.
  The class \<^verbatim>\<open>CESContribution\<close> talks to injected services (storage, telemetry,
  experiments, notifications, opener, product metadata) whose code is not part of the
  file. Their observable behaviour is modelled from the interfaces of the specification
  (section 6); every call the contribution makes on them is recorded, in order, in a
  trace, so that "no read", "exactly one write" and "no timer armed" are statements
  about that trace.
\<close>

subsection \<open>JavaScript values\<close>

text \<open>
  The numbers of this file are instants and durations in milliseconds: the result of
  \<^verbatim>\<open>Date.now()\<close> and \<^verbatim>\<open>getTime()\<close>, the three constants, and sums and
  differences of those. \<^verbatim>\<open>getTime()\<close> of an invalid date is \<^verbatim>\<open>NaN\<close>; every
  other value is a whole number (of magnitude far below \<open>2^53\<close> for the instants a clock
  reports, where the arithmetic of doubles is exact), modelled as an unbounded integer.
\<close>

datatype jsnum = NaN | Num int

fun js_add :: "jsnum \<Rightarrow> jsnum \<Rightarrow> jsnum" where
  "js_add (Num a) (Num b) = Num (a + b)"
| "js_add _ _ = NaN"

fun js_sub :: "jsnum \<Rightarrow> jsnum \<Rightarrow> jsnum" where
  "js_sub (Num a) (Num b) = Num (a - b)"
| "js_sub _ _ = NaN"

text \<open>Comparisons with \<^verbatim>\<open>NaN\<close> are false.\<close>

fun js_gt :: "jsnum \<Rightarrow> jsnum \<Rightarrow> bool" where
  "js_gt (Num a) (Num b) = (b < a)"
| "js_gt _ _ = False"

fun js_lt :: "jsnum \<Rightarrow> jsnum \<Rightarrow> bool" where
  "js_lt (Num a) (Num b) = (a < b)"
| "js_lt _ _ = False"

fun isNaN :: "jsnum \<Rightarrow> bool" where
  "isNaN NaN = True"
| "isNaN (Num _) = False"

text \<open>
  A treatment of the experiment service: \<^verbatim>\<open>getTreatment<boolean>\<close> and
  \<^verbatim>\<open>getTreatment<string>\<close> are the two instances the file uses. \<open>None\<close> is
  \<^verbatim>\<open>undefined\<close>.
\<close>

datatype tvalue = TBool bool | TString string

text \<open>JavaScript truthiness, as \<^verbatim>\<open>if (!isCandidate)\<close> reads it.\<close>

fun truthy :: "tvalue option \<Rightarrow> bool" where
  "truthy None = False"
| "truthy (Some (TBool b)) = b"
| "truthy (Some (TString s)) = (s \<noteq> [])"

text \<open>The nullish coalescing operator \<^verbatim>\<open>a ?? b\<close>.\<close>

fun nullish :: "tvalue option \<Rightarrow> tvalue \<Rightarrow> tvalue" where
  "nullish None d = d"
| "nullish (Some v) d = v"

text \<open>The outcome of awaiting a promise of a collaborator.\<close>

datatype 'a promise = Resolved 'a | Rejected

subsection \<open>encodeURIComponent\<close>

text \<open>
  The built-in \<^verbatim>\<open>encodeURIComponent\<close>, on a string given as the bytes of its UTF-8
  encoding: the unreserved characters \<^verbatim>\<open>A-Z a-z 0-9 - _ . ! ~ * ' ( )\<close> stay, every
  other byte becomes \<^verbatim>\<open>%XX\<close> with upper-case hexadecimal digits.
\<close>

definition uriUnreserved :: "char list" where
  "uriUnreserved =
     ''ABCDEFGHIJKLMNOPQRSTUVWXYZabcdefghijklmnopqrstuvwxyz0123456789-_.!~*()'' @ [CHR 0x27]"

definition hexDigit :: "nat \<Rightarrow> char" where
  "hexDigit n = ''0123456789ABCDEF'' ! (n mod 16)"

definition percentEncode :: "char \<Rightarrow> string" where
  "percentEncode c =
     (if c \<in> set uriUnreserved then [c]
      else [CHR ''%'', hexDigit (of_char c div 16), hexDigit (of_char c mod 16)])"

definition encodeURIComponent :: "string \<Rightarrow> string" where
  "encodeURIComponent s = concat (map percentEncode s)"

subsection \<open>Constants\<close>

definition WAIT_TIME_TO_SHOW_SURVEY :: int where
  "WAIT_TIME_TO_SHOW_SURVEY = 1000 * 60 * 60"

definition MAX_INSTALL_AGE :: int where
  "MAX_INSTALL_AGE = 1000 * 60 * 60 * 24"

definition REMIND_LATER_DELAY :: int where
  "REMIND_LATER_DELAY = 1000 * 60 * 60 * 4"

definition SKIP_SURVEY_KEY :: string where
  "SKIP_SURVEY_KEY = ''ces/skipSurvey''"

definition REMIND_LATER_DATE_KEY :: string where
  "REMIND_LATER_DATE_KEY = ''ces/remindLaterDate''"

subsection \<open>The injected services and the world they act on\<close>

record telemetryInfo =
  firstSessionDate :: string
  machineId :: string

text \<open>
  What the contribution reads from its environment during one routine: the product
  metadata (\<open>cesSurveyUrl\<close> is \<open>None\<close> when the product has none), the platform, the
  optional experiment service (\<open>None\<close> when it is not injected) with the outcome of each
  treatment lookup, the outcome of \<^verbatim>\<open>getTelemetryInfo()\<close>, and the two functions of
  the built-in \<^verbatim>\<open>Date\<close> the file uses: \<open>Date_getTime s\<close> is
  \<^verbatim>\<open>new Date(s).getTime()\<close> and \<open>toUTCString t\<close> is the UTC string of the
  instant \<open>t\<close>.
\<close>

record services =
  cesSurveyUrl :: "string option"
  version :: string
  platform :: string
  tasExperimentService :: "(string \<Rightarrow> tvalue option promise) option"
  getTelemetryInfo :: "telemetryInfo promise"
  Date_getTime :: "string \<Rightarrow> jsnum"
  toUTCString :: "int \<Rightarrow> string"

datatype userReaction = accept | remindLater | neverShowAgain

text \<open>One call on a collaborator.\<close>

datatype event =
    StorageGet string
  | StorageStore string string
  | GetTreatment string
  | GetTelemetryInfo
  | PublicLog string userReaction
  | Schedule jsnum
  | Prompt tvalue "tvalue list"
  | OpenerOpen string

text \<open>
  The world: the persisted global-scope storage, the pending delay of
  \<^verbatim>\<open>promptScheduler\<close> (\<open>None\<close> while no firing is pending) and the trace of calls
  made so far, oldest first.
\<close>

record world =
  storage :: "string \<rightharpoonup> string"
  timer :: "jsnum option"
  trace :: "event list"

definition record_event :: "event \<Rightarrow> world \<Rightarrow> world" where
  "record_event e w = w\<lparr>trace := trace w @ [e]\<rparr>"

text \<open>
  Modelled from the spec: the storage service (\<^verbatim>\<open>get(key) -> string\<close> with the
  fallback for an absent key, \<^verbatim>\<open>set(key, value)\<close>; global scope).
\<close>

definition storageService_get :: "string \<Rightarrow> string \<Rightarrow> world \<Rightarrow> string \<times> world" where
  "storageService_get key fallbackValue w =
     (case storage w key of None \<Rightarrow> fallbackValue | Some v \<Rightarrow> v,
      record_event (StorageGet key) w)"

definition storageService_store :: "string \<Rightarrow> string \<Rightarrow> world \<Rightarrow> world" where
  "storageService_store key v w =
     record_event (StorageStore key v) (w\<lparr>storage := (storage w)(key \<mapsto> v)\<rparr>)"

text \<open>
  Modelled from the spec: the experiment service, reached through optional chaining
  (\<^verbatim>\<open>this.tasExperimentService?.getTreatment(name)\<close>): without a service the
  awaited value is \<^verbatim>\<open>undefined\<close> and no call is made.
\<close>

definition getTreatment :: "services \<Rightarrow> string \<Rightarrow> world \<Rightarrow> tvalue option promise \<times> world" where
  "getTreatment env name w =
     (case tasExperimentService env of
        None \<Rightarrow> (Resolved None, w)
      | Some svc \<Rightarrow> (svc name, record_event (GetTreatment name) w))"

text \<open>Modelled from the spec: the telemetry sink.\<close>

definition telemetryService_getTelemetryInfo ::
    "services \<Rightarrow> world \<Rightarrow> telemetryInfo promise \<times> world" where
  "telemetryService_getTelemetryInfo env w =
     (getTelemetryInfo env, record_event GetTelemetryInfo w)"

definition telemetryService_publicLog :: "string \<Rightarrow> userReaction \<Rightarrow> world \<Rightarrow> world" where
  "telemetryService_publicLog eventName r w = record_event (PublicLog eventName r) w"

text \<open>
  Modelled from the spec: the one-shot timer (\<^verbatim>\<open>RunOnceScheduler.schedule\<close>): arming
  replaces any pending firing.
\<close>

definition promptScheduler_schedule :: "jsnum \<Rightarrow> world \<Rightarrow> world" where
  "promptScheduler_schedule delay w = record_event (Schedule delay) (w\<lparr>timer := Some delay\<rparr>)"

text \<open>
  Modelled from the spec: the URL opener. The event holds the string handed to
  \<^verbatim>\<open>URI.parse\<close>.
\<close>

definition openerService_open :: "string \<Rightarrow> world \<Rightarrow> world" where
  "openerService_open url w = record_event (OpenerOpen url) w"

text \<open>
  Modelled from the spec: the notification presenter. The severity (\<^verbatim>\<open>Info\<close>) and
  the option \<^verbatim>\<open>sticky: true\<close> are constant; the event holds the message and the
  labels of the choices.
\<close>

definition notificationService_prompt :: "tvalue \<Rightarrow> tvalue list \<Rightarrow> world \<Rightarrow> world" where
  "notificationService_prompt message labels w = record_event (Prompt message labels) w"

subsection \<open>The contribution\<close>

definition skipSurvey :: "services \<Rightarrow> world \<Rightarrow> world" where
  "skipSurvey env w = storageService_store SKIP_SURVEY_KEY (version env) w"

text \<open>
  \<^verbatim>\<open>_prepareSurvey\<close>. \<open>now\<close> is the value of the one call of \<^verbatim>\<open>Date.now()\<close> the
  routine makes (one on each path). A rejected promise ends the routine where it is
  awaited.
\<close>

definition prepareSurvey :: "services \<Rightarrow> int \<Rightarrow> world \<Rightarrow> world" where
  "prepareSurvey env now w =
     (case getTreatment env ''CESSurvey'' w of
        (Rejected, w1) \<Rightarrow> w1
      | (Resolved isCandidate, w1) \<Rightarrow>
          if \<not> truthy isCandidate then skipSurvey env w1
          else
            (case storageService_get REMIND_LATER_DATE_KEY [] w1 of
               (remindLaterDate, w2) \<Rightarrow>
                 if remindLaterDate \<noteq> [] then
                   (let timeToRemind =
                          js_sub (js_add (Date_getTime env remindLaterDate) (Num REMIND_LATER_DELAY))
                            (Num now)
                    in promptScheduler_schedule
                         (if js_gt timeToRemind (Num 0) then timeToRemind else Num 0) w2)
                 else
                   (case telemetryService_getTelemetryInfo env w2 of
                      (Rejected, w3) \<Rightarrow> w3
                    | (Resolved info, w3) \<Rightarrow>
                        (let timeFromInstall =
                               js_sub (Num now) (Date_getTime env (firstSessionDate info));
                             isNewInstall =
                               (\<not> isNaN timeFromInstall \<and>
                                js_lt timeFromInstall (Num MAX_INSTALL_AGE))
                         in if \<not> isNewInstall then skipSurvey env w3
                            else promptScheduler_schedule
                                   (if js_lt timeFromInstall (Num WAIT_TIME_TO_SHOW_SURVEY)
                                    then js_sub (Num WAIT_TIME_TO_SHOW_SURVEY) timeFromInstall
                                    else Num 0) w3))))"

text \<open>The closure \<^verbatim>\<open>sendTelemetry\<close> of the scheduler's runner.\<close>

definition sendTelemetry :: "userReaction \<Rightarrow> world \<Rightarrow> world" where
  "sendTelemetry r w = telemetryService_publicLog ''cesSurvey:popup'' r w"

text \<open>
  The survey URL built by the template literal of the first choice; an absent
  \<^verbatim>\<open>cesSurveyUrl\<close> prints as \<^verbatim>\<open>undefined\<close>.
\<close>

definition surveyUrl :: "services \<Rightarrow> telemetryInfo \<Rightarrow> string" where
  "surveyUrl env info =
     (case cesSurveyUrl env of None \<Rightarrow> ''undefined'' | Some u \<Rightarrow> u)
     @ ''?o='' @ encodeURIComponent (platform env)
     @ ''&v='' @ encodeURIComponent (version env)
     @ ''&m='' @ encodeURIComponent (machineId info) @ ''}''"

text \<open>The \<^verbatim>\<open>run\<close> of the first choice (the button that takes the survey).\<close>

definition accept_run :: "services \<Rightarrow> world \<Rightarrow> world" where
  "accept_run env w =
     (case telemetryService_getTelemetryInfo env (sendTelemetry neverShowAgain w) of
        (Rejected, w1) \<Rightarrow> w1
      | (Resolved info, w1) \<Rightarrow> skipSurvey env (openerService_open (surveyUrl env info) w1))"

text \<open>
  The \<^verbatim>\<open>run\<close> of "Remind Me later". \<open>clicked\<close> is the instant \<^verbatim>\<open>new Date()\<close>
  reads; \<open>now\<close> is the later reading of \<^verbatim>\<open>Date.now()\<close> inside
  \<^verbatim>\<open>_prepareSurvey\<close>.
\<close>

definition remindLater_run :: "services \<Rightarrow> int \<Rightarrow> int \<Rightarrow> world \<Rightarrow> world" where
  "remindLater_run env clicked now w =
     prepareSurvey env now
       (storageService_store REMIND_LATER_DATE_KEY (toUTCString env clicked)
          (sendTelemetry remindLater w))"

text \<open>The \<^verbatim>\<open>run\<close> of "Don't Show Again".\<close>

definition neverAgain_run :: "services \<Rightarrow> world \<Rightarrow> world" where
  "neverAgain_run env w = skipSurvey env (sendTelemetry neverShowAgain w)"

text \<open>
  The runner of \<^verbatim>\<open>promptScheduler\<close>: it resolves the two texts and shows the prompt
  with its three choices. \<^verbatim>\<open>nls.localize\<close> yields the English default text (the
  contribution is registered for the language \<^verbatim>\<open>en\<close> only).
\<close>

definition runner :: "services \<Rightarrow> world \<Rightarrow> world" where
  "runner env w =
     (case getTreatment env ''CESSurveyMessage'' w of
        (Rejected, w1) \<Rightarrow> w1
      | (Resolved m, w1) \<Rightarrow>
          (case getTreatment env ''CESSurveyButton'' w1 of
             (Rejected, w2) \<Rightarrow> w2
           | (Resolved b, w2) \<Rightarrow>
               notificationService_prompt
                 (nullish m (TString (''Got a moment to help the VS Code team? Please tell us ''
                    @ ''about your experience with VS Code so far.'')))
                 [nullish b (TString ''Give Feedback''),
                  TString ''Remind Me later'',
                  TString (''Don'' @ [CHR 0x27] @ ''t Show Again'')] w2))"

text \<open>The pending firing elapses: the timer is no longer armed and the runner runs.\<close>

definition timer_fires :: "services \<Rightarrow> world \<Rightarrow> world" where
  "timer_fires env w =
     (case timer w of None \<Rightarrow> w | Some delay \<Rightarrow> runner env (w\<lparr>timer := None\<rparr>))"

text \<open>
  The constructor. A falsy \<^verbatim>\<open>cesSurveyUrl\<close> is \<^verbatim>\<open>undefined\<close> or the empty
  string. The new scheduler is not armed.
\<close>

definition CESContribution :: "services \<Rightarrow> int \<Rightarrow> world \<Rightarrow> world" where
  "CESContribution env now w =
     (if cesSurveyUrl env = None \<or> cesSurveyUrl env = Some [] then w
      else
        (case storageService_get SKIP_SURVEY_KEY [] w of
           (skipSurveyFlag, w1) \<Rightarrow>
             if skipSurveyFlag \<noteq> [] then w1
             else prepareSurvey env now (w1\<lparr>timer := None\<rparr>)))"

subsection \<open>Registration\<close>

datatype LifecyclePhase = Starting | Ready | Restored | Eventually

datatype contribution = CESContributionClass

text \<open>
  The statement at the end of the module: the class is registered with the workbench
  registry, for the phase \<^verbatim>\<open>Restored\<close>, when the language is \<^verbatim>\<open>en\<close>.
\<close>

definition module_load :: "string \<Rightarrow> (contribution \<times> LifecyclePhase) list
    \<Rightarrow> (contribution \<times> LifecyclePhase) list" where
  "module_load language registry =
     (if language = ''en'' then registry @ [(CESContributionClass, Restored)] else registry)"

text \<open>
  Modelled from the spec: the workbench registry instantiates every registered
  contribution once; the class is not exported, so the registry is the only way to an
  instance.
\<close>

fun instantiate :: "services \<Rightarrow> int \<Rightarrow> (contribution \<times> LifecyclePhase) list \<Rightarrow> world \<Rightarrow> world" where
  "instantiate env now [] w = w"
| "instantiate env now ((CESContributionClass, phase) # rest) w =
     instantiate env now rest (CESContribution env now w)"

definition workbench_start :: "string \<Rightarrow> services \<Rightarrow> int \<Rightarrow> world \<Rightarrow> world" where
  "workbench_start language env now w = instantiate env now (module_load language []) w"

subsection \<open>Reading the trace\<close>

text \<open>The calls made between two worlds, the later one extending the trace of the earlier.\<close>

definition events_since :: "world \<Rightarrow> world \<Rightarrow> event list" where
  "events_since w w' = drop (length (trace w)) (trace w')"

fun isPublicLog :: "event \<Rightarrow> bool" where
  "isPublicLog (PublicLog _ _) = True"
| "isPublicLog _ = False"

subsection \<open>An example installation\<close>

text \<open>
  A concrete environment for the examples below: a fresh Linux installation of version
  1.52.0 first started at the epoch, assigned to the survey experiment with no texts of
  its own. Its \<^verbatim>\<open>Date\<close> is tabulated at the two instants the examples use (the
  epoch and one hour later); every other string is an invalid date there.
\<close>

definition example_info :: telemetryInfo where
  "example_info =
     \<lparr>firstSessionDate = ''Thu, 01 Jan 1970 00:00:00 GMT'', machineId = ''0a1b2c3d''\<rparr>"

definition example_getTime :: "string \<Rightarrow> jsnum" where
  "example_getTime s =
     (if s = ''Thu, 01 Jan 1970 00:00:00 GMT'' then Num 0
      else if s = ''Thu, 01 Jan 1970 01:00:00 GMT'' then Num 3600000
      else NaN)"

definition example_toUTCString :: "int \<Rightarrow> string" where
  "example_toUTCString t =
     (if t = 0 then ''Thu, 01 Jan 1970 00:00:00 GMT'' else ''Thu, 01 Jan 1970 01:00:00 GMT'')"

definition example_treatments :: "string \<Rightarrow> tvalue option promise" where
  "example_treatments name =
     (if name = ''CESSurvey'' then Resolved (Some (TBool True)) else Resolved None)"

definition example_env :: services where
  "example_env =
     \<lparr>cesSurveyUrl = Some ''https://example.com/ces'', version = ''1.52.0'',
      platform = ''linux'', tasExperimentService = Some example_treatments,
      getTelemetryInfo = Resolved example_info, Date_getTime = example_getTime,
      toUTCString = example_toUTCString\<rparr>"

definition example_world :: world where
  "example_world = \<lparr>storage = Map.empty, timer = None, trace = []\<rparr>"

text \<open>The same installation after a "Remind Me later" that persisted the string \<open>s\<close>.\<close>

definition example_reminded :: "string \<Rightarrow> world" where
  "example_reminded s =
     \<lparr>storage = [''ces/remindLaterDate'' \<mapsto> s], timer = None, trace = []\<rparr>"

subsection \<open>The survey URL as the specification words it\<close>

text \<open>
  The specification's format of the survey URL: the configured URL followed by
  \<^verbatim>\<open>?o=<platform>&v=<version>&m=<machineId>\<close>, each value percent-encoded, and
  nothing else. It is compared with \<open>surveyUrl\<close>, the URL of the source.
\<close>

definition specSurveyUrl :: "string \<Rightarrow> string \<Rightarrow> string \<Rightarrow> string \<Rightarrow> string" where
  "specSurveyUrl url os ver machine =
     url @ ''?o='' @ encodeURIComponent os @ ''&v='' @ encodeURIComponent ver
       @ ''&m='' @ encodeURIComponent machine"

section \<open>Properties\<close>

lemmas service_defs =
  record_event_def storageService_get_def storageService_store_def getTreatment_def
  telemetryService_getTelemetryInfo_def telemetryService_publicLog_def
  promptScheduler_schedule_def openerService_open_def notificationService_prompt_def
  skipSurvey_def sendTelemetry_def

lemmas example_defs =
  example_env_def example_world_def example_info_def example_getTime_def
  example_toUTCString_def example_treatments_def

lemma keys_distinct: "SKIP_SURVEY_KEY \<noteq> REMIND_LATER_DATE_KEY"
  by (simp add: SKIP_SURVEY_KEY_def REMIND_LATER_DATE_KEY_def)

text \<open>
  \<^verbatim>\<open>_prepareSurvey\<close> only adds to the trace, logs no telemetry event, and leaves the
  remind-later key as it is.
\<close>

lemma prepareSurvey_trace:
  "\<exists>es. trace (prepareSurvey env now w) = trace w @ es \<and> filter isPublicLog es = []"
  by (simp add: prepareSurvey_def service_defs Let_def split: option.splits promise.splits)

lemma prepareSurvey_keeps_remind:
  "storage (prepareSurvey env now w) REMIND_LATER_DATE_KEY = storage w REMIND_LATER_DATE_KEY"
  using keys_distinct
  by (simp add: prepareSurvey_def service_defs Let_def split: option.splits promise.splits)

text \<open>
  C1. Taking the first choice (the button that opens the survey) should open the
  configured survey URL followed by exactly \<^verbatim>\<open>?o=<platform>&v=<version>&m=<machineId>\<close>,
  each value percent-encoded, and then persist the skip flag with the product version.
  The source's template literal ends in a second closing brace, so the URL it opens is
  the specified one followed by the character \<^verbatim>\<open>}\<close>: for every environment, and
  evaluated on the example installation, where the opener receives
  \<^verbatim>\<open>https://example.com/ces?o=linux&v=1.52.0&m=0a1b2c3d}\<close>. The skip flag is
  persisted afterwards, as specified.
\<close>

theorem accept_url_stray_brace:
  "surveyUrl env info =
     specSurveyUrl (case cesSurveyUrl env of None \<Rightarrow> ''undefined'' | Some u \<Rightarrow> u)
       (platform env) (version env) (machineId info) @ ''}''
   \<and> accept_run example_env example_world =
     \<lparr>storage = [''ces/skipSurvey'' \<mapsto> ''1.52.0''], timer = None,
      trace = [PublicLog ''cesSurvey:popup'' neverShowAgain, GetTelemetryInfo,
        OpenerOpen ''https://example.com/ces?o=linux&v=1.52.0&m=0a1b2c3d}'',
        StorageStore ''ces/skipSurvey'' ''1.52.0'']\<rparr>
   \<and> specSurveyUrl ''https://example.com/ces'' ''linux'' ''1.52.0'' ''0a1b2c3d'' =
       ''https://example.com/ces?o=linux&v=1.52.0&m=0a1b2c3d''"
  by (simp add: surveyUrl_def specSurveyUrl_def accept_run_def service_defs example_defs
      encodeURIComponent_def percentEncode_def uriUnreserved_def SKIP_SURVEY_KEY_def)

text \<open>
  C2. \<^verbatim>\<open>_prepareSurvey\<close> on the install-age path: the installation is a candidate of
  the experiment, no remind-later date is persisted (the key is absent or holds the
  empty string), and the telemetry info resolves. With \<open>d\<close> the install age
  \<^verbatim>\<open>Date.now() - new Date(info.firstSessionDate).getTime()\<close>: when \<open>d\<close> is
  \<^verbatim>\<open>NaN\<close> or at least \<open>MAX_INSTALL_AGE\<close>, the skip flag is persisted with the product
  version and the timer is left alone (no call of \<^verbatim>\<open>schedule\<close>); otherwise the timer
  is armed, with \<open>WAIT_TIME_TO_SHOW_SURVEY - d\<close> when \<open>d < WAIT_TIME_TO_SHOW_SURVEY\<close>
  and with \<open>0\<close> when not. An install age of \<open>0\<close> gives a wait of exactly one hour.
\<close>

theorem prepare_install_age:
  assumes "tasExperimentService env = Some svc" and "svc ''CESSurvey'' = Resolved c"
    and "truthy c"
    and "storage w REMIND_LATER_DATE_KEY = None \<or> storage w REMIND_LATER_DATE_KEY = Some []"
    and "getTelemetryInfo env = Resolved info"
    and "d = js_sub (Num now) (Date_getTime env (firstSessionDate info))"
  shows "prepareSurvey env now w =
      (if d = NaN \<or> (\<exists>x. d = Num x \<and> MAX_INSTALL_AGE \<le> x) then
         w\<lparr>storage := (storage w)(SKIP_SURVEY_KEY \<mapsto> version env),
           trace := trace w @ [GetTreatment ''CESSurvey'', StorageGet REMIND_LATER_DATE_KEY,
             GetTelemetryInfo, StorageStore SKIP_SURVEY_KEY (version env)]\<rparr>
       else
         w\<lparr>timer := Some (if js_lt d (Num WAIT_TIME_TO_SHOW_SURVEY)
                          then js_sub (Num WAIT_TIME_TO_SHOW_SURVEY) d else Num 0),
           trace := trace w @ [GetTreatment ''CESSurvey'', StorageGet REMIND_LATER_DATE_KEY,
             GetTelemetryInfo,
             Schedule (if js_lt d (Num WAIT_TIME_TO_SHOW_SURVEY)
                       then js_sub (Num WAIT_TIME_TO_SHOW_SURVEY) d else Num 0)]\<rparr>)
    \<and> (d = Num 0 \<longrightarrow> timer (prepareSurvey env now w) = Some (Num (60 * 60 * 1000)))"
proof (cases "Date_getTime env (firstSessionDate info)")
  case NaN
  with assms show ?thesis
    by (auto simp add: prepareSurvey_def service_defs)
next
  case (Num t)
  with assms show ?thesis
    by (auto simp add: prepareSurvey_def service_defs Let_def
        WAIT_TIME_TO_SHOW_SURVEY_def MAX_INSTALL_AGE_def)
qed

theorem prepare_install_age_witness:
  "prepareSurvey example_env 0 example_world =
     \<lparr>storage = Map.empty, timer = Some (Num 3600000),
      trace = [GetTreatment ''CESSurvey'', StorageGet ''ces/remindLaterDate'',
        GetTelemetryInfo, Schedule (Num 3600000)]\<rparr>
   \<and> prepareSurvey example_env 1800000 example_world =
     \<lparr>storage = Map.empty, timer = Some (Num 1800000),
      trace = [GetTreatment ''CESSurvey'', StorageGet ''ces/remindLaterDate'',
        GetTelemetryInfo, Schedule (Num 1800000)]\<rparr>
   \<and> prepareSurvey example_env 7200000 example_world =
     \<lparr>storage = Map.empty, timer = Some (Num 0),
      trace = [GetTreatment ''CESSurvey'', StorageGet ''ces/remindLaterDate'',
        GetTelemetryInfo, Schedule (Num 0)]\<rparr>
   \<and> prepareSurvey example_env 86400000 example_world =
     \<lparr>storage = [''ces/skipSurvey'' \<mapsto> ''1.52.0''], timer = None,
      trace = [GetTreatment ''CESSurvey'', StorageGet ''ces/remindLaterDate'',
        GetTelemetryInfo, StorageStore ''ces/skipSurvey'' ''1.52.0'']\<rparr>
   \<and> prepareSurvey (example_env\<lparr>getTelemetryInfo :=
          Resolved (example_info\<lparr>firstSessionDate := ''yesterday''\<rparr>)\<rparr>) 0 example_world =
     \<lparr>storage = [''ces/skipSurvey'' \<mapsto> ''1.52.0''], timer = None,
      trace = [GetTreatment ''CESSurvey'', StorageGet ''ces/remindLaterDate'',
        GetTelemetryInfo, StorageStore ''ces/skipSurvey'' ''1.52.0'']\<rparr>"
proof -
  have e: "tasExperimentService example_env = Some example_treatments"
    "example_treatments ''CESSurvey'' = Resolved (Some (TBool True))"
    "truthy (Some (TBool True))"
    "storage example_world REMIND_LATER_DATE_KEY = None
       \<or> storage example_world REMIND_LATER_DATE_KEY = Some []"
    "getTelemetryInfo example_env = Resolved example_info"
    by (simp_all add: example_defs)
  have d: "js_sub (Num n) (Date_getTime example_env (firstSessionDate example_info)) = Num n" for n
    by (simp add: example_defs)
  have e': "tasExperimentService (example_env\<lparr>getTelemetryInfo :=
          Resolved (example_info\<lparr>firstSessionDate := ''yesterday''\<rparr>)\<rparr>) = Some example_treatments"
    "getTelemetryInfo (example_env\<lparr>getTelemetryInfo :=
          Resolved (example_info\<lparr>firstSessionDate := ''yesterday''\<rparr>)\<rparr>) = 
          Resolved (example_info\<lparr>firstSessionDate := ''yesterday''\<rparr>)"
    "NaN = js_sub (Num 0) (Date_getTime (example_env\<lparr>getTelemetryInfo :=
          Resolved (example_info\<lparr>firstSessionDate := ''yesterday''\<rparr>)\<rparr>)
            (firstSessionDate (example_info\<lparr>firstSessionDate := ''yesterday''\<rparr>)))"
    by (simp_all add: example_defs)
  show ?thesis
    using prepare_install_age [OF e(1-5) d [symmetric], of 0]
      prepare_install_age [OF e(1-5) d [symmetric], of 1800000]
      prepare_install_age [OF e(1-5) d [symmetric], of 7200000]
      prepare_install_age [OF e(1-5) d [symmetric], of 86400000]
      prepare_install_age [OF e'(1) e(2-4) e'(2-3)]
    by (simp add: example_env_def example_world_def WAIT_TIME_TO_SHOW_SURVEY_def MAX_INSTALL_AGE_def
        SKIP_SURVEY_KEY_def REMIND_LATER_DATE_KEY_def)
qed

text \<open>
  C3. \<^verbatim>\<open>_prepareSurvey\<close> on the remind-later path: the installation is a candidate,
  and the persisted remind-later date \<open>s\<close> is not empty and parses to the instant
  \<open>t\<close>. The timer is armed with \<open>t + REMIND_LATER_DELAY - now\<close> when that is positive
  and with \<open>0\<close> when it is not; nothing is written. A date five hours, or exactly four
  hours, before \<open>now\<close> gives the wait \<open>0\<close>.
\<close>

theorem prepare_remind_later:
  assumes "tasExperimentService env = Some svc" and "svc ''CESSurvey'' = Resolved c"
    and "truthy c"
    and "storage w REMIND_LATER_DATE_KEY = Some s" and "s \<noteq> []"
    and "Date_getTime env s = Num t"
  shows "prepareSurvey env now w =
      w\<lparr>timer := Some (Num (if 0 < t + REMIND_LATER_DELAY - now
                             then t + REMIND_LATER_DELAY - now else 0)),
        trace := trace w @ [GetTreatment ''CESSurvey'', StorageGet REMIND_LATER_DATE_KEY,
          Schedule (Num (if 0 < t + REMIND_LATER_DELAY - now
                         then t + REMIND_LATER_DELAY - now else 0))]\<rparr>
    \<and> (t = now - 5 * (60 * 60 * 1000) \<or> t = now - 4 * (60 * 60 * 1000) \<longrightarrow>
         timer (prepareSurvey env now w) = Some (Num 0))"
  using assms
  by (auto simp add: prepareSurvey_def service_defs Let_def REMIND_LATER_DELAY_def)

theorem prepare_remind_later_witness:
  "prepareSurvey example_env 18000000 (example_reminded ''Thu, 01 Jan 1970 00:00:00 GMT'') =
     \<lparr>storage = [''ces/remindLaterDate'' \<mapsto> ''Thu, 01 Jan 1970 00:00:00 GMT''],
      timer = Some (Num 0),
      trace = [GetTreatment ''CESSurvey'', StorageGet ''ces/remindLaterDate'',
        Schedule (Num 0)]\<rparr>
   \<and> prepareSurvey example_env 14400000 (example_reminded ''Thu, 01 Jan 1970 00:00:00 GMT'') =
     \<lparr>storage = [''ces/remindLaterDate'' \<mapsto> ''Thu, 01 Jan 1970 00:00:00 GMT''],
      timer = Some (Num 0),
      trace = [GetTreatment ''CESSurvey'', StorageGet ''ces/remindLaterDate'',
        Schedule (Num 0)]\<rparr>
   \<and> prepareSurvey example_env 3600000 (example_reminded ''Thu, 01 Jan 1970 00:00:00 GMT'') =
     \<lparr>storage = [''ces/remindLaterDate'' \<mapsto> ''Thu, 01 Jan 1970 00:00:00 GMT''],
      timer = Some (Num 10800000),
      trace = [GetTreatment ''CESSurvey'', StorageGet ''ces/remindLaterDate'',
        Schedule (Num 10800000)]\<rparr>"
proof -
  have e: "tasExperimentService example_env = Some example_treatments"
    "example_treatments ''CESSurvey'' = Resolved (Some (TBool True))"
    "truthy (Some (TBool True))"
    "storage (example_reminded ''Thu, 01 Jan 1970 00:00:00 GMT'') REMIND_LATER_DATE_KEY
       = Some ''Thu, 01 Jan 1970 00:00:00 GMT''"
    "''Thu, 01 Jan 1970 00:00:00 GMT'' \<noteq> []"
    "Date_getTime example_env ''Thu, 01 Jan 1970 00:00:00 GMT'' = Num 0"
    by (simp_all add: example_defs example_reminded_def REMIND_LATER_DATE_KEY_def)
  show ?thesis
    using prepare_remind_later [OF e, of 18000000] prepare_remind_later [OF e, of 14400000]
      prepare_remind_later [OF e, of 3600000]
    by (simp add: example_reminded_def REMIND_LATER_DELAY_def REMIND_LATER_DATE_KEY_def)
qed

text \<open>
  C4. Taking the first choice should log a telemetry event whose \<^verbatim>\<open>userReaction\<close> is
  \<^verbatim>\<open>accept\<close>, one of the three reactions the type of \<^verbatim>\<open>sendTelemetry\<close> declares.
  The source calls \<^verbatim>\<open>sendTelemetry('neverShowAgain')\<close> there, as it does for
  "Don't Show Again": in every environment and world the one telemetry event of the
  choice is tagged \<^verbatim>\<open>neverShowAgain\<close>, and no event tagged \<^verbatim>\<open>accept\<close> is logged.
\<close>

theorem accept_logs_neverShowAgain:
  "filter isPublicLog (events_since w (accept_run env w)) =
     [PublicLog ''cesSurvey:popup'' neverShowAgain]
   \<and> PublicLog ''cesSurvey:popup'' accept \<notin> set (events_since w (accept_run env w))"
  by (simp add: accept_run_def service_defs events_since_def split: promise.splits)

text \<open>
  C5. \<^verbatim>\<open>_prepareSurvey\<close> when the treatment \<^verbatim>\<open>CESSurvey\<close> is unavailable (no
  experiment service, or the lookup resolves to \<^verbatim>\<open>undefined\<close>) or falsy: the only
  change of the world is the write of the skip flag with the product version. The calls
  made are the treatment lookup (when there is a service) and that one write: no other
  key is written, nothing is read from the storage, and \<^verbatim>\<open>schedule\<close> is not called,
  so the timer is as it was.
\<close>

theorem prepare_not_candidate:
  assumes "tasExperimentService env = None
     \<or> (\<exists>svc c. tasExperimentService env = Some svc \<and> svc ''CESSurvey'' = Resolved c
           \<and> truthy c = False)"
  shows "prepareSurvey env now w =
      w\<lparr>storage := (storage w)(SKIP_SURVEY_KEY \<mapsto> version env),
        trace := trace w
          @ (case tasExperimentService env of None \<Rightarrow> [] | Some svc \<Rightarrow> [GetTreatment ''CESSurvey''])
          @ [StorageStore SKIP_SURVEY_KEY (version env)]\<rparr>"
  using assms
  by (auto simp add: prepareSurvey_def service_defs)

theorem prepare_not_candidate_witness:
  "prepareSurvey (example_env\<lparr>tasExperimentService := None\<rparr>) 0 example_world =
     \<lparr>storage = [''ces/skipSurvey'' \<mapsto> ''1.52.0''], timer = None,
      trace = [StorageStore ''ces/skipSurvey'' ''1.52.0'']\<rparr>
   \<and> prepareSurvey (example_env\<lparr>tasExperimentService := Some (\<lambda>name. Resolved None)\<rparr>) 0
        example_world =
     \<lparr>storage = [''ces/skipSurvey'' \<mapsto> ''1.52.0''], timer = None,
      trace = [GetTreatment ''CESSurvey'', StorageStore ''ces/skipSurvey'' ''1.52.0'']\<rparr>
   \<and> prepareSurvey
        (example_env\<lparr>tasExperimentService := Some (\<lambda>name. Resolved (Some (TBool False)))\<rparr>) 0
        example_world =
     \<lparr>storage = [''ces/skipSurvey'' \<mapsto> ''1.52.0''], timer = None,
      trace = [GetTreatment ''CESSurvey'', StorageStore ''ces/skipSurvey'' ''1.52.0'']\<rparr>"
proof -
  have a: "tasExperimentService (example_env\<lparr>tasExperimentService := None\<rparr>) = None
     \<or> (\<exists>svc c. tasExperimentService (example_env\<lparr>tasExperimentService := None\<rparr>) = Some svc
           \<and> svc ''CESSurvey'' = Resolved c \<and> truthy c = False)"
    by simp
  have b: "tasExperimentService (example_env\<lparr>tasExperimentService := Some (\<lambda>name. Resolved v)\<rparr>) = None
     \<or> (\<exists>svc c. tasExperimentService (example_env\<lparr>tasExperimentService := Some (\<lambda>name. Resolved v)\<rparr>) = Some svc
           \<and> svc ''CESSurvey'' = Resolved c \<and> truthy c = False)"
    if "truthy v = False" for v
    using that by simp
  show ?thesis
    using prepare_not_candidate [OF a, of 0 example_world]
      prepare_not_candidate [OF b [of None], of 0 example_world]
      prepare_not_candidate [OF b [of "Some (TBool False)"], of 0 example_world]
    by (simp add: example_env_def example_world_def SKIP_SURVEY_KEY_def)
qed

text \<open>
  C6. A product with no survey URL (absent or empty): the constructor returns at once.
  The world is unchanged: no timer is armed, and no call is made on any collaborator,
  so no persisted key is read or written.
\<close>

theorem no_survey_url_inert:
  "cesSurveyUrl env = None \<or> cesSurveyUrl env = Some [] \<Longrightarrow>
     CESContribution env now w = w"
  by (simp add: CESContribution_def)

theorem no_survey_url_inert_witness:
  "CESContribution (example_env\<lparr>cesSurveyUrl := None\<rparr>) 0 example_world = example_world
   \<and> CESContribution (example_env\<lparr>cesSurveyUrl := Some []\<rparr>) 0 example_world = example_world"
  using no_survey_url_inert [of "example_env\<lparr>cesSurveyUrl := None\<rparr>" 0 example_world]
    no_survey_url_inert [of "example_env\<lparr>cesSurveyUrl := Some []\<rparr>" 0 example_world]
  by (simp add: example_env_def)

text \<open>
  C7. Taking "Remind Me later": the choice is one run of \<^verbatim>\<open>_prepareSurvey\<close> on the
  world in which the event \<^verbatim>\<open>remindLater\<close> has been logged and the remind-later key
  has been overwritten with the UTC string of the instant of the click. Among all calls
  of the choice there is exactly one telemetry event, tagged \<^verbatim>\<open>remindLater\<close>; the
  log and the write come first; and the remind-later key still holds the string of the
  click when the choice is done.
\<close>

theorem remind_later_choice:
  "remindLater_run env clicked now w =
     prepareSurvey env now
       (w\<lparr>storage := (storage w)(REMIND_LATER_DATE_KEY \<mapsto> toUTCString env clicked),
          trace := trace w @ [PublicLog ''cesSurvey:popup'' remindLater,
            StorageStore REMIND_LATER_DATE_KEY (toUTCString env clicked)]\<rparr>)
   \<and> filter isPublicLog (events_since w (remindLater_run env clicked now w)) =
       [PublicLog ''cesSurvey:popup'' remindLater]
   \<and> storage (remindLater_run env clicked now w) REMIND_LATER_DATE_KEY =
       Some (toUTCString env clicked)
   \<and> take 2 (events_since w (remindLater_run env clicked now w)) =
       [PublicLog ''cesSurvey:popup'' remindLater,
        StorageStore REMIND_LATER_DATE_KEY (toUTCString env clicked)]"
proof -
  let ?w1 = "w\<lparr>storage := (storage w)(REMIND_LATER_DATE_KEY \<mapsto> toUTCString env clicked),
          trace := trace w @ [PublicLog ''cesSurvey:popup'' remindLater,
            StorageStore REMIND_LATER_DATE_KEY (toUTCString env clicked)]\<rparr>"
  have run: "remindLater_run env clicked now w = prepareSurvey env now ?w1"
    by (simp add: remindLater_run_def service_defs)
  obtain es where es: "trace (prepareSurvey env now ?w1) = trace ?w1 @ es"
    "filter isPublicLog es = []"
    using prepareSurvey_trace [of env now ?w1] by blast
  have since: "events_since w (remindLater_run env clicked now w) =
      [PublicLog ''cesSurvey:popup'' remindLater,
       StorageStore REMIND_LATER_DATE_KEY (toUTCString env clicked)] @ es"
    by (simp add: events_since_def run es(1))
  have kept: "storage (prepareSurvey env now ?w1) REMIND_LATER_DATE_KEY =
      Some (toUTCString env clicked)"
    by (simp add: prepareSurvey_keeps_remind)
  show ?thesis
    using run since es(2) kept by simp
qed

text \<open>
  C8. Whenever a non-empty remind-later date is persisted, \<^verbatim>\<open>_prepareSurvey\<close> never
  takes the install-age path: it makes no call of \<^verbatim>\<open>getTelemetryInfo\<close>, its result
  does not depend on what that call would return (so neither the install age nor the
  old-install skip plays a part), and for a candidate the timer is armed with the wait
  computed from the persisted date alone, nothing being written.
\<close>

theorem remind_later_path_only:
  assumes "storage w REMIND_LATER_DATE_KEY = Some s" and "s \<noteq> []"
  shows "GetTelemetryInfo \<notin> set (events_since w (prepareSurvey env now w))
    \<and> prepareSurvey (env\<lparr>getTelemetryInfo := i\<rparr>) now w = prepareSurvey env now w
    \<and> (tasExperimentService env = Some svc \<and> svc ''CESSurvey'' = Resolved c \<and> truthy c \<longrightarrow>
        (let timeToRemind =
               js_sub (js_add (Date_getTime env s) (Num REMIND_LATER_DELAY)) (Num now);
             wait = (if js_gt timeToRemind (Num 0) then timeToRemind else Num 0)
         in prepareSurvey env now w =
              w\<lparr>timer := Some wait,
                trace := trace w @ [GetTreatment ''CESSurvey'',
                  StorageGet REMIND_LATER_DATE_KEY, Schedule wait]\<rparr>))"
  using assms
  by (auto simp add: prepareSurvey_def service_defs events_since_def Let_def
      split: option.splits promise.splits)

theorem remind_later_path_only_witness:
  "GetTelemetryInfo \<notin> set (events_since (example_reminded ''Thu, 01 Jan 1970 01:00:00 GMT'')
       (prepareSurvey example_env 3600000 (example_reminded ''Thu, 01 Jan 1970 01:00:00 GMT'')))
   \<and> prepareSurvey (example_env\<lparr>getTelemetryInfo := Rejected\<rparr>) 3600000
        (example_reminded ''Thu, 01 Jan 1970 01:00:00 GMT'') =
      prepareSurvey example_env 3600000 (example_reminded ''Thu, 01 Jan 1970 01:00:00 GMT'')
   \<and> prepareSurvey example_env 3600000 (example_reminded ''Thu, 01 Jan 1970 01:00:00 GMT'') =
     \<lparr>storage = [''ces/remindLaterDate'' \<mapsto> ''Thu, 01 Jan 1970 01:00:00 GMT''],
      timer = Some (Num 14400000),
      trace = [GetTreatment ''CESSurvey'', StorageGet ''ces/remindLaterDate'',
        Schedule (Num 14400000)]\<rparr>"
proof -
  have e: "storage (example_reminded ''Thu, 01 Jan 1970 01:00:00 GMT'') REMIND_LATER_DATE_KEY
       = Some ''Thu, 01 Jan 1970 01:00:00 GMT''"
    "''Thu, 01 Jan 1970 01:00:00 GMT'' \<noteq> []"
    by (simp_all add: example_reminded_def REMIND_LATER_DATE_KEY_def)
  have c: "tasExperimentService example_env = Some example_treatments"
    "example_treatments ''CESSurvey'' = Resolved (Some (TBool True))"
    "truthy (Some (TBool True))"
    "Date_getTime example_env ''Thu, 01 Jan 1970 01:00:00 GMT'' = Num 3600000"
    by (simp_all add: example_defs)
  show ?thesis
    using remind_later_path_only [OF e, of example_env 3600000 Rejected example_treatments
        "Some (TBool True)"] c
    by (simp add: example_reminded_def REMIND_LATER_DELAY_def REMIND_LATER_DATE_KEY_def Let_def
        events_since_def)
qed

text \<open>
  C9. A persisted remind-later string that is not a date (\<^verbatim>\<open>getTime()\<close> is
  \<^verbatim>\<open>NaN\<close>): for a candidate the comparison \<^verbatim>\<open>timeToRemind > 0\<close> is false, so the
  timer is armed with the wait \<open>0\<close>. The storage is unchanged: the skip flag is not
  persisted and the installation is not treated as ineligible.
\<close>

theorem prepare_invalid_remind_later:
  assumes "tasExperimentService env = Some svc" and "svc ''CESSurvey'' = Resolved c"
    and "truthy c"
    and "storage w REMIND_LATER_DATE_KEY = Some s" and "s \<noteq> []"
    and "Date_getTime env s = NaN"
  shows "prepareSurvey env now w =
      w\<lparr>timer := Some (Num 0),
        trace := trace w @ [GetTreatment ''CESSurvey'', StorageGet REMIND_LATER_DATE_KEY,
          Schedule (Num 0)]\<rparr>
    \<and> storage (prepareSurvey env now w) = storage w"
  using assms
  by (simp add: prepareSurvey_def service_defs)

theorem prepare_invalid_remind_later_witness:
  "prepareSurvey example_env 3600000 (example_reminded ''not a date'') =
     \<lparr>storage = [''ces/remindLaterDate'' \<mapsto> ''not a date''], timer = Some (Num 0),
      trace = [GetTreatment ''CESSurvey'', StorageGet ''ces/remindLaterDate'',
        Schedule (Num 0)]\<rparr>
   \<and> storage (prepareSurvey example_env 3600000 (example_reminded ''not a date'')) =
       [''ces/remindLaterDate'' \<mapsto> ''not a date'']"
proof -
  have e: "tasExperimentService example_env = Some example_treatments"
    "example_treatments ''CESSurvey'' = Resolved (Some (TBool True))"
    "truthy (Some (TBool True))"
    "storage (example_reminded ''not a date'') REMIND_LATER_DATE_KEY = Some ''not a date''"
    "''not a date'' \<noteq> []"
    "Date_getTime example_env ''not a date'' = NaN"
    by (simp_all add: example_defs example_reminded_def REMIND_LATER_DATE_KEY_def)
  show ?thesis
    using prepare_invalid_remind_later [OF e, of 3600000]
    by (simp add: example_reminded_def REMIND_LATER_DATE_KEY_def)
qed

text \<open>
  C10. The module registers the contribution exactly when the language is \<^verbatim>\<open>en\<close>.
  For every other language the registry is left as it was and starting the workbench
  changes nothing: no instance is constructed, so no call is made on the storage, no
  timer is armed, and with no timer pending no firing shows a prompt.
\<close>

theorem registered_for_en_only:
  "(module_load language [] = [(CESContributionClass, Restored)]) = (language = ''en'')
   \<and> (language \<noteq> ''en'' \<longrightarrow>
        module_load language registry = registry
        \<and> workbench_start language env now w = w
        \<and> (timer w = None \<longrightarrow> timer_fires env' (workbench_start language env now w) = w))"
  by (simp add: module_load_def workbench_start_def timer_fires_def)

theorem registered_for_en_only_witness:
  "module_load ''en-US'' [] = []
   \<and> workbench_start ''en-US'' example_env 0 example_world = example_world
   \<and> timer_fires example_env (workbench_start ''en-US'' example_env 0 example_world)
       = example_world
   \<and> module_load ''de'' [] = []
   \<and> module_load ''en'' [] = [(CESContributionClass, Restored)]"
proof -
  have t: "timer example_world = None"
    by (simp add: example_world_def)
  show ?thesis
    using registered_for_en_only [of "''en-US''" "[]" example_env 0 example_world example_env]
      registered_for_en_only [of "''de''" "[]" example_env 0 example_world example_env]
      registered_for_en_only [of "''en''" "[]" example_env 0 example_world example_env] t
    by auto
qed

end
